theory Spec2Isabelle
  imports Main "HOL-Library.Word"
begin

section \<open>Python values\<close>

text \<open>
  Python \<open>bytes\<close> are lists of 8-bit characters. A Python \<open>str\<close> is represented by its
  UTF-8 encoding, so \<open>str.encode()\<close> is the identity and \<open>bytes.decode()\<close> is a validity
  check. Every string operation of the service (prefix test, slicing off an ASCII prefix,
  stripping \<open>=\<close>) acts on ASCII text, where bytes and code points coincide.
\<close>

type_synonym bytes = string

text \<open>
  The Python values of a payload and of a decrypted record. Python's \<open>None\<close> is \<open>JNull\<close>; a
  \<open>float\<close> is its 64 bits, so that the two zeros and the NaNs are values like the others; a
  \<open>dict\<close> has strings for keys and keeps its insertion order. \<open>json.dumps\<close> accepts all of
  them and writes a \<open>tuple\<close> as it writes a \<open>list\<close>; \<open>json.loads\<close> never returns a \<open>tuple\<close>.
\<close>

datatype json =
    JNull
  | JBool bool
  | JInt int
  | JFloat "64 word"
  | JStr string
  | JList "json list"
  | JTuple "json list"
  | JObj "(string \<times> json) list"

text \<open>Exceptions, with \<open>PyException msg e\<close> for \<open>Exception(f"msg{e}")\<close> and
  \<open>HTTPException status detail cause\<close> for FastAPI's exception, \<open>cause\<close> being the exception
  whose text is appended to \<open>detail\<close>.\<close>

datatype pyexc =
    InvalidToken
  | ValueError
  | TypeError
  | KeyError
  | AttributeError
  | OverflowError
  | RecursionError
  | ConnectionError
  | ResponseError
  | ValidationError
  | PyException string pyexc
  | HTTPException nat string "pyexc option"

text \<open>Truth value of a Python object, as tested by \<open>if x\<close> and \<open>not x\<close>; of the floats only
  \<open>0.0\<close> and \<open>-0.0\<close> are false.\<close>

fun truthy :: "json \<Rightarrow> bool" where
  "truthy JNull = False"
| "truthy (JBool b) = b"
| "truthy (JInt i) = (i \<noteq> 0)"
| "truthy (JFloat f) = (f \<noteq> 0 \<and> f \<noteq> 0x8000000000000000)"
| "truthy (JStr s) = (s \<noteq> [])"
| "truthy (JList xs) = (xs \<noteq> [])"
| "truthy (JTuple xs) = (xs \<noteq> [])"
| "truthy (JObj kvs) = (kvs \<noteq> [])"

text \<open>\<open>d.get(key)\<close>: the value, or \<open>None\<close> when the key is missing.\<close>

definition dict_get :: "(string \<times> json) list \<Rightarrow> string \<Rightarrow> json" where
  "dict_get kvs k = (case map_of kvs k of None \<Rightarrow> JNull | Some v \<Rightarrow> v)"

text \<open>\<open>xs[:n]\<close>: a negative bound counts from the end.\<close>

definition py_prefix :: "int \<Rightarrow> 'a list \<Rightarrow> 'a list" where
  "py_prefix n xs = (if 0 \<le> n then take (nat n) xs else take (length xs - nat (- n)) xs)"

definition startswith :: "string \<Rightarrow> string \<Rightarrow> bool" where
  "startswith s p = (take (length p) s = p)"

definition rstrip :: "string \<Rightarrow> char \<Rightarrow> string" where
  "rstrip s c = rev (dropWhile (\<lambda>x. x = c) (rev s))"

subsection \<open>UTF-8 decoding\<close>

text \<open>\<open>bytes.decode()\<close> raises \<open>UnicodeDecodeError\<close>, a \<open>ValueError\<close>, unless the bytes are
  well-formed UTF-8: no overlong form, no surrogate, nothing above U+10FFFF.\<close>

fun utf8_ok :: "nat list \<Rightarrow> bool" where
  "utf8_ok [] = True"
| "utf8_ok (b # bs) =
     (let n = (if b < 0x80 then 0 else if 0xC2 \<le> b \<and> b \<le> 0xDF then 1
               else if 0xE0 \<le> b \<and> b \<le> 0xEF then 2
               else if 0xF0 \<le> b \<and> b \<le> 0xF4 then 3 else (4::nat));
          lo = (if b = 0xE0 then 0xA0 else if b = 0xF0 then 0x90 else 0x80);
          hi = (if b = 0xED then 0x9F else if b = 0xF4 then 0x8F else 0xBF);
          t = take n bs
      in n < 4 \<and> length t = n
         \<and> list_all (\<lambda>c. lo \<le> c \<and> c \<le> hi) (take 1 t)
         \<and> list_all (\<lambda>c. 0x80 \<le> c \<and> c \<le> 0xBF) (drop 1 t)
         \<and> utf8_ok (drop n bs))"

definition bytes_decode :: "bytes \<Rightarrow> pyexc + string" where
  "bytes_decode bs = (if utf8_ok (map of_char bs) then Inr bs else Inl ValueError)"

subsection \<open>Hexadecimal text\<close>

definition hexdigit :: "nat \<Rightarrow> char" where
  "hexdigit n = ''0123456789abcdef'' ! (n mod 16)"

definition hex :: "bytes \<Rightarrow> string" where
  "hex bs = concat (map (\<lambda>c. [hexdigit (of_char c div 16), hexdigit (of_char c mod 16)]) bs)"

definition hexval :: "char \<Rightarrow> nat option" where
  "hexval c =
     (let n = (of_char c :: nat) in
      if 48 \<le> n \<and> n \<le> 57 then Some (n - 48)
      else if 97 \<le> n \<and> n \<le> 102 then Some (n - 87)
      else if 65 \<le> n \<and> n \<le> 70 then Some (n - 55)
      else None)"

definition isspace :: "char \<Rightarrow> bool" where
  "isspace c = ((of_char c :: nat) \<in> {9, 10, 11, 12, 13, 32})"

text \<open>\<open>bytes.fromhex\<close>: pairs of hexadecimal digits, white space allowed between pairs.\<close>

fun fromhex :: "string \<Rightarrow> pyexc + bytes" where
  "fromhex [] = Inr []"
| "fromhex [c] = (if isspace c then Inr [] else Inl ValueError)"
| "fromhex (c # d # r) =
     (if isspace c then fromhex (d # r)
      else case (hexval c, hexval d) of
        (Some a, Some b) \<Rightarrow>
          (case fromhex r of Inl e \<Rightarrow> Inl e | Inr bs \<Rightarrow> Inr (char_of (16 * a + b) # bs))
      | _ \<Rightarrow> Inl ValueError)"

subsection \<open>URL-safe base64\<close>

definition urlsafe_alphabet :: string where
  "urlsafe_alphabet = ''ABCDEFGHIJKLMNOPQRSTUVWXYZabcdefghijklmnopqrstuvwxyz0123456789-_''"

definition b64char :: "nat \<Rightarrow> char" where
  "b64char n = urlsafe_alphabet ! (n mod 64)"

text \<open>\<open>base64.urlsafe_b64encode\<close>: three bytes give four characters; a last group of one or
  two bytes is padded with \<open>=\<close>.\<close>

fun urlsafe_b64encode :: "bytes \<Rightarrow> string" where
  "urlsafe_b64encode [] = []"
| "urlsafe_b64encode [a] =
     (let n = (of_char a :: nat) * 65536
      in [b64char (n div 262144), b64char (n div 4096), CHR ''='', CHR ''=''])"
| "urlsafe_b64encode [a, b] =
     (let n = (of_char a :: nat) * 65536 + of_char b * 256
      in [b64char (n div 262144), b64char (n div 4096), b64char (n div 64), CHR ''=''])"
| "urlsafe_b64encode (a # b # c # r) =
     (let n = (of_char a :: nat) * 65536 + of_char b * 256 + of_char c
      in [b64char (n div 262144), b64char (n div 4096), b64char (n div 64), b64char n]
         @ urlsafe_b64encode r)"

section \<open>Libraries and the outside world\<close>

text \<open>
  A \<open>datetime\<close> is a naive UTC instant, as \<open>datetime.utcnow()\<close> returns it: the number of
  microseconds since 0001-01-01T00:00:00. The service creates no other, but
  \<open>datetime.fromisoformat\<close> returns an aware one for a text that ends with a UTC offset:
  \<open>Aware t offset\<close>, the instant in UTC and the offset in seconds.
\<close>

type_synonym datetime = int

datatype pydatetime = Naive datetime | Aware datetime int

text \<open>\<open>now > other\<close> for a naive \<open>now\<close>: comparing it with an aware \<open>datetime\<close> raises
  \<open>TypeError\<close>.\<close>

definition datetime_gt :: "datetime \<Rightarrow> pydatetime \<Rightarrow> pyexc + bool" where
  "datetime_gt now other = (case other of Naive t \<Rightarrow> Inr (now > t) | Aware t offset \<Rightarrow> Inl TypeError)"

definition datetime_max :: int where
  "datetime_max = 3652059 * 86400 * 1000000 - 1"

text \<open>\<open>timedelta(hours=h)\<close> raises \<open>OverflowError\<close> beyond 999999999 days.\<close>

definition timedelta_hours :: "int \<Rightarrow> pyexc + int" where
  "timedelta_hours h =
     (if - 999999999 \<le> h div 24 \<and> h div 24 \<le> 999999999 then Inr (h * 3600 * 1000000)
      else Inl OverflowError)"

text \<open>\<open>datetime + timedelta\<close> raises \<open>OverflowError\<close> outside the years 1 to 9999.\<close>

definition datetime_add :: "datetime \<Rightarrow> int \<Rightarrow> pyexc + datetime" where
  "datetime_add t d =
     (if 0 \<le> t + d \<and> t + d \<le> datetime_max then Inr (t + d) else Inl OverflowError)"

text \<open>
  What the service calls and does not define: the clock, the \<open>datetime\<close> text formats, the
  \<open>json\<close> codec, the Fernet cipher built from \<open>ENCRYPTION_KEY\<close>, \<open>hashlib.sha256\<close>, the Redis
  client, the validation pydantic applies to a field of type \<open>Optional[Dict[str, Any]]\<close> and
  to one of type \<open>Optional[str]\<close>, and the setting \<open>LINK_EXPIRATION_HOURS\<close>. The calls with
  an effect (reading the clock, drawing the cipher's random IV, talking to Redis) take the
  state \<open>'w\<close> of the outside world and return the new one.
\<close>

record 'w pylib =
  utcnow :: "'w \<Rightarrow> datetime \<times> 'w"
  isoformat :: "datetime \<Rightarrow> string"
  fromisoformat :: "string \<Rightarrow> pyexc + pydatetime"
  timestamp_str :: "datetime \<Rightarrow> string"
  json_dumps :: "json \<Rightarrow> pyexc + string"
  json_loads :: "string \<Rightarrow> pyexc + json"
  fernet_encrypt :: "bytes \<Rightarrow> 'w \<Rightarrow> (pyexc + bytes) \<times> 'w"
  fernet_decrypt :: "bytes \<Rightarrow> pyexc + bytes"
  hashlib_sha256 :: "bytes \<Rightarrow> bytes"
  redis_setex :: "string \<Rightarrow> int \<Rightarrow> string \<Rightarrow> 'w \<Rightarrow> (pyexc + unit) \<times> 'w"
  redis_get :: "string \<Rightarrow> 'w \<Rightarrow> (pyexc + bytes option) \<times> 'w"
  redis_exists :: "string \<Rightarrow> 'w \<Rightarrow> (pyexc + int) \<times> 'w"
  redis_delete :: "string \<Rightarrow> 'w \<Rightarrow> (pyexc + int) \<times> 'w"
  pydantic_dict :: "json \<Rightarrow> pyexc + (string \<times> json) list option"
  pydantic_str :: "json \<Rightarrow> pyexc + string option"
  expiration_hours :: int

section \<open>HashingService\<close>

definition generate_short_code :: "'w pylib \<Rightarrow> bytes \<Rightarrow> int \<Rightarrow> string" where
  "generate_short_code L encrypted_data max_length =
     (let hash_bytes = hashlib_sha256 L encrypted_data;
          hash_bytes = py_prefix max_length hash_bytes;
          encoded = rstrip (urlsafe_b64encode hash_bytes) CHR ''=''
      in py_prefix max_length encoded)"

section \<open>EncryptionService\<close>

definition encrypt :: "'w pylib \<Rightarrow> json \<Rightarrow> 'w \<Rightarrow> (pyexc + bytes) \<times> 'w" where
  "encrypt L data w =
     (case json_dumps L data of
        Inl e \<Rightarrow> (Inl (PyException ''Failed to encrypt data: '' e), w)
      | Inr json_data \<Rightarrow>
          (case fernet_encrypt L json_data w of
             (Inl e, w') \<Rightarrow> (Inl (PyException ''Failed to encrypt data: '' e), w')
           | (Inr encrypted, w') \<Rightarrow> (Inr encrypted, w')))"

text \<open>\<open>except (InvalidToken, ValueError)\<close>: these two give \<open>None\<close>, anything else propagates.
  \<open>JSONDecodeError\<close> and \<open>UnicodeDecodeError\<close> are \<open>ValueError\<close>s.\<close>

definition decrypt_except :: "pyexc \<Rightarrow> pyexc + json" where
  "decrypt_except e = (if e = InvalidToken \<or> e = ValueError then Inr JNull else Inl e)"

definition decrypt :: "'w pylib \<Rightarrow> bytes \<Rightarrow> pyexc + json" where
  "decrypt L encrypted_data =
     (case fernet_decrypt L encrypted_data of
        Inl e \<Rightarrow> decrypt_except e
      | Inr decrypted \<Rightarrow>
          (case bytes_decode decrypted of
             Inl e \<Rightarrow> decrypt_except e
           | Inr text \<Rightarrow>
               (case json_loads L text of
                  Inl e \<Rightarrow> decrypt_except e
                | Inr data \<Rightarrow> Inr data)))"


section \<open>LinkRepository\<close>

record link_data =
  encrypted_data :: bytes
  metadata :: json

definition link_key :: "string \<Rightarrow> string" where
  "link_key short_code = ''link:'' @ short_code"

definition data_to_store :: "bytes \<Rightarrow> json \<Rightarrow> json" where
  "data_to_store enc meta = JObj [(''encrypted_data'', JStr (hex enc)), (''metadata'', meta)]"

definition save :: "'w pylib \<Rightarrow> string \<Rightarrow> bytes \<Rightarrow> json \<Rightarrow> 'w \<Rightarrow> (pyexc + bool) \<times> 'w" where
  "save L short_code enc meta w =
     (case json_dumps L (data_to_store enc meta) of
        Inl e \<Rightarrow> (Inl (PyException ''Failed to save link data: '' e), w)
      | Inr json_data \<Rightarrow>
             (let expiration_seconds = expiration_hours L * 3600
              in case redis_setex L (link_key short_code) expiration_seconds json_data w of
                   (Inl e, w') \<Rightarrow> (Inl (PyException ''Failed to save link data: '' e), w')
                 | (Inr _, w') \<Rightarrow> (Inr True, w')))"

text \<open>Every exception inside \<open>get\<close> (a missing key, a value of the wrong type, bad
  hexadecimal text, bad JSON) is caught and gives \<open>None\<close>.\<close>

definition parse_stored :: "'w pylib \<Rightarrow> bytes \<Rightarrow> link_data option" where
  "parse_stored L data =
     (case bytes_decode data of
        Inl e \<Rightarrow> None
      | Inr text \<Rightarrow>
          (case json_loads L text of
             Inr (JObj parsed) \<Rightarrow>
               (case map_of parsed ''encrypted_data'' of
                  Some (JStr h) \<Rightarrow>
                    (case fromhex h of
                       Inl e \<Rightarrow> None
                     | Inr enc \<Rightarrow>
                         (case map_of parsed ''metadata'' of
                            None \<Rightarrow> None
                          | Some m \<Rightarrow> Some \<lparr>encrypted_data = enc, metadata = m\<rparr>))
                | _ \<Rightarrow> None)
           | _ \<Rightarrow> None))"

definition get :: "'w pylib \<Rightarrow> string \<Rightarrow> 'w \<Rightarrow> link_data option \<times> 'w" where
  "get L short_code w =
     (case redis_get L (link_key short_code) w of
        (Inl e, w') \<Rightarrow> (None, w')
      | (Inr None, w') \<Rightarrow> (None, w')
      | (Inr (Some data), w') \<Rightarrow> (if data = [] then None else parse_stored L data, w'))"

definition delete :: "'w pylib \<Rightarrow> string \<Rightarrow> 'w \<Rightarrow> bool \<times> 'w" where
  "delete L short_code w =
     (case redis_delete L (link_key short_code) w of
        (Inl e, w') \<Rightarrow> (False, w')
      | (Inr result, w') \<Rightarrow> (0 < result, w'))"

definition exists :: "'w pylib \<Rightarrow> string \<Rightarrow> 'w \<Rightarrow> bool \<times> 'w" where
  "exists L short_code w =
     (case redis_exists L (link_key short_code) w of
        (Inl e, w') \<Rightarrow> (False, w')
      | (Inr n, w') \<Rightarrow> (0 < n, w'))"

section \<open>Schemas\<close>

record link_generate_response =
  short_code :: string
  expires_at :: datetime
  created_at :: datetime

record link_validation_response =
  valid :: bool
  data :: "(string \<times> json) list option"
  token :: "string option"
  encrypted_at :: "pydatetime option"
  error :: "string option"

text \<open>Building a \<open>LinkValidationResponse\<close> validates the two fields that come from the
  decrypted record, \<open>data\<close> and \<open>token\<close>; a value the schema does not accept raises the
  validation error.\<close>

definition LinkValidationResponse ::
  "'w pylib \<Rightarrow> bool \<Rightarrow> json \<Rightarrow> json \<Rightarrow> pydatetime option \<Rightarrow> string option
     \<Rightarrow> pyexc + link_validation_response" where
  "LinkValidationResponse L v d t enc err =
     (case pydantic_dict L d of
        Inl e \<Rightarrow> Inl e
      | Inr d' \<Rightarrow>
          (case pydantic_str L t of
             Inl e \<Rightarrow> Inl e
           | Inr t' \<Rightarrow>
               Inr \<lparr>valid = v, data = d', token = t', encrypted_at = enc, error = err\<rparr>))"

definition invalid_response :: "string \<Rightarrow> link_validation_response" where
  "invalid_response msg =
     \<lparr>valid = False, data = None, token = None, encrypted_at = None, error = Some msg\<rparr>"

section \<open>LinkController\<close>

text \<open>The token of the \<open>Authorization\<close> header: the text after \<open>Bearer \<close>, or the whole
  header; \<open>None\<close> when the header is absent or empty.\<close>

definition extract_token :: "string option \<Rightarrow> string option" where
  "extract_token authorization =
     (case authorization of
        None \<Rightarrow> None
      | Some a \<Rightarrow>
          if a = [] then None
          else if startswith a ''Bearer '' then Some (drop 7 a)
          else Some a)"

definition max_attempts :: nat where
  "max_attempts = 5"

text \<open>The bytes the loop derives a new code from: \<open>encrypted_data +
  str(now.timestamp()).encode()\<close>, in the scope of the loop variable \<open>attempt\<close>.\<close>

definition encrypted_data_with_timestamp :: "'w pylib \<Rightarrow> bytes \<Rightarrow> datetime \<Rightarrow> nat \<Rightarrow> bytes" where
  "encrypted_data_with_timestamp L enc now attempt = enc @ timestamp_str L now"

text \<open>The loop \<open>while self.repository.exists(short_code) and attempt < max_attempts\<close>:
  the store is asked first, also when the attempts are used up. It returns the code and
  the counter it ends with.\<close>

function collision_loop ::
  "'w pylib \<Rightarrow> bytes \<Rightarrow> datetime \<Rightarrow> string \<Rightarrow> nat \<Rightarrow> 'w \<Rightarrow> string \<times> nat \<times> 'w" where
  "collision_loop L enc now code attempt w =
     (case exists L code w of
        (collides, w') \<Rightarrow>
          if collides \<and> attempt < max_attempts
          then collision_loop L enc now
                 (generate_short_code L (encrypted_data_with_timestamp L enc now attempt) 8)
                 (attempt + 1) w'
          else (code, attempt, w'))"
  by pat_completeness auto
termination
  by (relation "measure (\<lambda>(L, enc, now, code, attempt, w). max_attempts - attempt)") auto

declare collision_loop.simps [simp del]

definition generate_link ::
  "'w pylib \<Rightarrow> (string \<times> json) list \<Rightarrow> string option \<Rightarrow> 'w
     \<Rightarrow> (pyexc + link_generate_response) \<times> 'w" where
  "generate_link L request_data authorization w =
     (case extract_token authorization of
        None \<Rightarrow> (Inl (HTTPException 401 ''Authorization token is required'' None), w)
      | Some tok \<Rightarrow>
        if tok = [] then (Inl (HTTPException 401 ''Authorization token is required'' None), w)
        else
          (case utcnow L w of (now, w1) \<Rightarrow>
          (case timedelta_hours (expiration_hours L) of Inl e \<Rightarrow> (Inl e, w1) | Inr delta \<Rightarrow>
          (case datetime_add now delta of Inl e \<Rightarrow> (Inl e, w1) | Inr expires \<Rightarrow>
          (let data_to_encrypt = JObj
                 [(''data'', JObj request_data),
                  (''token'', JStr tok),
                  (''encrypted_at'', JStr (isoformat L now)),
                  (''expires_at'', JStr (isoformat L expires))]
           in case encrypt L data_to_encrypt w1 of
                (Inl e, w2) \<Rightarrow> (Inl (HTTPException 500 ''Failed to encrypt data: '' (Some e)), w2)
              | (Inr enc, w2) \<Rightarrow>
                  (case collision_loop L enc now (generate_short_code L enc 8) 0 w2 of
                     (code, attempt, w3) \<Rightarrow>
                       if attempt \<ge> max_attempts
                       then (Inl (HTTPException 500 ''Failed to generate unique short code'' None), w3)
                       else
                         (let meta = JObj
                                [(''encrypted_at'', JStr (isoformat L now)),
                                 (''expires_at'', JStr (isoformat L expires))]
                          in case save L code enc meta w3 of
                               (Inl e, w4) \<Rightarrow>
                                 (Inl (HTTPException 500 ''Failed to save link: '' (Some e)), w4)
                             | (Inr _, w4) \<Rightarrow>
                                 (Inr \<lparr>short_code = code, expires_at = expires,
                                       created_at = now\<rparr>, w4))))))))"

text \<open>\<open>datetime.fromisoformat(x)\<close> for a value taken from the record: a value that is not
  a string raises \<open>TypeError\<close>.\<close>

definition parse_datetime :: "'w pylib \<Rightarrow> json \<Rightarrow> pyexc + pydatetime" where
  "parse_datetime L v = (case v of JStr s \<Rightarrow> fromisoformat L s | _ \<Rightarrow> Inl TypeError)"

text \<open>The expiration check: whether the record has expired. The clock is read only when
  \<open>expires_at\<close> is there, not empty and the text of an instant.\<close>

definition check_expiration ::
  "'w pylib \<Rightarrow> (string \<times> json) list \<Rightarrow> 'w \<Rightarrow> (pyexc + bool) \<times> 'w" where
  "check_expiration L decrypted_data w =
     (let expires_at_str = dict_get decrypted_data ''expires_at''
      in if truthy expires_at_str
         then (case parse_datetime L expires_at_str of
                 Inl e \<Rightarrow> (Inl e, w)
               | Inr expires \<Rightarrow> (case utcnow L w of (now, w') \<Rightarrow> (datetime_gt now expires, w')))
         else (Inr False, w))"

text \<open>The \<open>encrypted_at\<close> of the response: parsed from the record when it is there and
  not empty, \<open>None\<close> otherwise.\<close>

definition parse_encrypted_at ::
  "'w pylib \<Rightarrow> (string \<times> json) list \<Rightarrow> pyexc + pydatetime option" where
  "parse_encrypted_at L decrypted_data =
     (let encrypted_at_str = dict_get decrypted_data ''encrypted_at''
      in if truthy encrypted_at_str
         then (case parse_datetime L encrypted_at_str of
                 Inl e \<Rightarrow> Inl e
               | Inr t \<Rightarrow> Inr (Some t))
         else Inr None)"

definition valid_response ::
  "'w pylib \<Rightarrow> (string \<times> json) list \<Rightarrow> pyexc + link_validation_response" where
  "valid_response L decrypted_data =
     (case parse_encrypted_at L decrypted_data of
        Inl e \<Rightarrow> Inl e
      | Inr enc \<Rightarrow>
          LinkValidationResponse L True (dict_get decrypted_data ''data'')
            (dict_get decrypted_data ''token'') enc None)"

text \<open>A decrypted value that is true but not a \<open>dict\<close> has no \<open>get\<close>: \<open>AttributeError\<close>.\<close>

definition validate_link ::
  "'w pylib \<Rightarrow> string \<Rightarrow> 'w \<Rightarrow> (pyexc + link_validation_response) \<times> 'w" where
  "validate_link L code w =
     (case get L code w of
        (None, w1) \<Rightarrow> (Inr (invalid_response ''Link not found or expired''), w1)
      | (Some link, w1) \<Rightarrow>
          (case decrypt L (encrypted_data link) of
             Inl e \<Rightarrow> (Inl e, w1)
           | Inr decrypted_data \<Rightarrow>
               if \<not> truthy decrypted_data
               then (Inr (invalid_response ''Link data is corrupted or invalid''), w1)
               else
                 (case decrypted_data of
                    JObj kvs \<Rightarrow>
                      (case check_expiration L kvs w1 of
                         (Inl e, w2) \<Rightarrow> (Inl e, w2)
                       | (Inr expired, w2) \<Rightarrow>
                           if expired then (Inr (invalid_response ''Link has expired''), w2)
                           else (valid_response L kvs, w2))
                  | _ \<Rightarrow> (Inl AttributeError, w1))))"

section \<open>The libraries in memory\<close>

text \<open>
  An instance of the libraries on which the service can be run: the world is a clock, the
  number of IVs the cipher has drawn, the number of existence probes Redis has answered
  and the Redis keys with their values and expiry times. The instance knows the text of
  the instants and of the JSON values listed in its tables; its cipher puts a marker in
  front of the plain text; its digest is the last 32 bytes of the input, reversed and
  filled up; its schema validation accepts \<open>None\<close> and the values of the declared type.
\<close>

record world =
  clock :: datetime
  ivs :: nat
  probes :: nat
  store :: "(string \<times> string \<times> int) list"

fun table_isoformat :: "(datetime \<times> string \<times> string) list \<Rightarrow> datetime \<Rightarrow> string" where
  "table_isoformat [] t = []"
| "table_isoformat ((t', txt, ts) # r) t = (if t = t' then txt else table_isoformat r t)"

fun table_timestamp :: "(datetime \<times> string \<times> string) list \<Rightarrow> datetime \<Rightarrow> string" where
  "table_timestamp [] t = []"
| "table_timestamp ((t', txt, ts) # r) t = (if t = t' then ts else table_timestamp r t)"

fun table_fromisoformat :: "(string \<times> pydatetime) list \<Rightarrow> string \<Rightarrow> pyexc + pydatetime" where
  "table_fromisoformat [] s = Inl ValueError"
| "table_fromisoformat ((txt, t) # r) s = (if s = txt then Inr t else table_fromisoformat r s)"

fun table_dumps :: "(string \<times> json) list \<Rightarrow> json \<Rightarrow> pyexc + string" where
  "table_dumps [] v = Inl TypeError"
| "table_dumps ((s, v') # r) v = (if v = v' then Inr s else table_dumps r v)"

fun table_loads :: "(string \<times> json) list \<Rightarrow> string \<Rightarrow> pyexc + json" where
  "table_loads [] s = Inl ValueError"
| "table_loads ((s', v) # r) s = (if s = s' then Inr v else table_loads r s)"

definition memory_setex :: "string \<Rightarrow> int \<Rightarrow> string \<Rightarrow> world \<Rightarrow> (pyexc + unit) \<times> world" where
  "memory_setex k seconds v w =
     (if seconds \<le> 0 then (Inl ResponseError, w)
      else (Inr (), w\<lparr>store := (k, v, seconds) # filter (\<lambda>e. fst e \<noteq> k) (store w)\<rparr>))"

definition memory_get :: "string \<Rightarrow> world \<Rightarrow> (pyexc + bytes option) \<times> world" where
  "memory_get k w = (Inr (map_option fst (map_of (store w) k)), w)"

definition memory_exists :: "string \<Rightarrow> world \<Rightarrow> (pyexc + int) \<times> world" where
  "memory_exists k w =
     (Inr (case map_of (store w) k of None \<Rightarrow> 0 | Some _ \<Rightarrow> 1), w\<lparr>probes := probes w + 1\<rparr>)"

definition memory_delete :: "string \<Rightarrow> world \<Rightarrow> (pyexc + int) \<times> world" where
  "memory_delete k w =
     (Inr (case map_of (store w) k of None \<Rightarrow> 0 | Some _ \<Rightarrow> 1),
      w\<lparr>store := filter (\<lambda>e. fst e \<noteq> k) (store w)\<rparr>)"

definition memory_dict :: "json \<Rightarrow> pyexc + (string \<times> json) list option" where
  "memory_dict v = (case v of JNull \<Rightarrow> Inr None | JObj kvs \<Rightarrow> Inr (Some kvs) | _ \<Rightarrow> Inl ValidationError)"

definition memory_str :: "json \<Rightarrow> pyexc + string option" where
  "memory_str v = (case v of JNull \<Rightarrow> Inr None | JStr s \<Rightarrow> Inr (Some s) | _ \<Rightarrow> Inl ValidationError)"

definition memory_lib ::
  "(datetime \<times> string \<times> string) list \<Rightarrow> (string \<times> pydatetime) list \<Rightarrow> (string \<times> json) list
     \<Rightarrow> int \<Rightarrow> world pylib" where
  "memory_lib instants parsed texts hours =
     \<lparr>utcnow = (\<lambda>w. (clock w, w)),
      isoformat = table_isoformat instants,
      fromisoformat = table_fromisoformat parsed,
      timestamp_str = table_timestamp instants,
      json_dumps = table_dumps texts,
      json_loads = table_loads texts,
      fernet_encrypt = (\<lambda>plain w. (Inr (''gAAAAA'' @ plain), w\<lparr>ivs := ivs w + 1\<rparr>)),
      fernet_decrypt = (\<lambda>c. if startswith c ''gAAAAA'' then Inr (drop 6 c) else Inl InvalidToken),
      hashlib_sha256 = (\<lambda>b. take 32 (rev b @ replicate 32 CHR ''.'')),
      redis_setex = memory_setex,
      redis_get = memory_get,
      redis_exists = memory_exists,
      redis_delete = memory_delete,
      pydantic_dict = memory_dict,
      pydantic_str = memory_str,
      expiration_hours = hours\<rparr>"

text \<open>A Redis whose first \<open>n\<close> existence probes report a key and whose later probes report
  none, whatever the key and the contents.\<close>

definition scripted_exists :: "nat \<Rightarrow> string \<Rightarrow> world \<Rightarrow> (pyexc + int) \<times> world" where
  "scripted_exists n k w = (Inr (if probes w < n then 1 else 0), w\<lparr>probes := probes w + 1\<rparr>)"

text \<open>The scenario: the payload \<open>{"a": 1}\<close> with the credential \<open>tok\<close> on 2024-01-01 at
  00:00:00, links living for one hour.\<close>

definition scenario_instants :: "(datetime \<times> string \<times> string) list" where
  "scenario_instants =
     [(63839664000000000, ''2024-01-01T00:00:00'', ''1704067200.0''),
      (63839667600000000, ''2024-01-01T01:00:00'', ''1704070800.0'')]"

definition scenario_parsed :: "(string \<times> pydatetime) list" where
  "scenario_parsed =
     [(''2024-01-01T00:00:00'', Naive 63839664000000000),
      (''2024-01-01T01:00:00'', Naive 63839667600000000),
      (''2020-01-01T00:00:00+00:00'', Aware 63713433600000000 0)]"

definition scenario_record :: json where
  "scenario_record = JObj
     [(''data'', JObj [(''a'', JInt 1)]),
      (''token'', JStr ''tok''),
      (''encrypted_at'', JStr ''2024-01-01T00:00:00''),
      (''expires_at'', JStr ''2024-01-01T01:00:00'')]"

definition scenario_text :: string where
  \<open>scenario_text = ''{"data": {"a": 1}, "token": "tok", "encrypted_at": "2024-01-01T00:00:00", "expires_at": "2024-01-01T01:00:00"}''\<close>

definition scenario_hex :: string where
  "scenario_hex = ''6741414141417b2264617461223a207b2261223a20317d2c2022746f6b656e223a2022746f6b222c2022656e637279707465645f6174223a2022323032342d30312d30315430303a30303a3030222c2022657870697265735f6174223a2022323032342d30312d30315430313a30303a3030227d''"

definition scenario_metadata :: json where
  "scenario_metadata = JObj
     [(''encrypted_at'', JStr ''2024-01-01T00:00:00''),
      (''expires_at'', JStr ''2024-01-01T01:00:00'')]"

definition scenario_stored_text :: string where
  \<open>scenario_stored_text = ''{"encrypted_data": "6741414141417b2264617461223a207b2261223a20317d2c2022746f6b656e223a2022746f6b222c2022656e637279707465645f6174223a2022323032342d30312d30315430303a30303a3030222c2022657870697265735f6174223a2022323032342d30312d30315430313a30303a3030227d", "metadata": {"encrypted_at": "2024-01-01T00:00:00", "expires_at": "2024-01-01T01:00:00"}}''\<close>

text \<open>More records, as they would lie in the store: one without \<open>expires_at\<close>, one whose
  \<open>encrypted_at\<close> is no timestamp, one whose \<open>data\<close> is a string, one whose \<open>expires_at\<close>
  carries a UTC offset, the empty record, and a cipher text that has been tampered with.
  Each is given by its JSON text and the hexadecimal text of its cipher text.\<close>

definition noexpiry_text :: string where
  \<open>noexpiry_text = ''{"data": {"a": 1}, "token": "tok"}''\<close>

definition noexpiry_hex :: string where
  "noexpiry_hex = ''6741414141417b2264617461223a207b2261223a20317d2c2022746f6b656e223a2022746f6b227d''"

definition badstamp_text :: string where
  \<open>badstamp_text = ''{"token": "tok", "encrypted_at": "yesterday"}''\<close>

definition badstamp_hex :: string where
  "badstamp_hex = ''6741414141417b22746f6b656e223a2022746f6b222c2022656e637279707465645f6174223a2022796573746572646179227d''"

definition baddata_text :: string where
  \<open>baddata_text = ''{"data": "x"}''\<close>

definition baddata_hex :: string where
  "baddata_hex = ''6741414141417b2264617461223a202278227d''"

definition awarexp_text :: string where
  \<open>awarexp_text = ''{"expires_at": "2020-01-01T00:00:00+00:00"}''\<close>

definition awarexp_hex :: string where
  "awarexp_hex = ''6741414141417b22657870697265735f6174223a2022323032302d30312d30315430303a30303a30302b30303a3030227d''"

text \<open>A payload with a tuple, and what its JSON text is read back as.\<close>

definition tuple_record :: json where
  "tuple_record = JObj
     [(''data'', JObj [(''a'', JTuple [JInt 1, JInt 2])]), (''token'', JStr ''tok'')]"

definition list_record :: json where
  "list_record = JObj
     [(''data'', JObj [(''a'', JList [JInt 1, JInt 2])]), (''token'', JStr ''tok'')]"

definition tuple_text :: string where
  \<open>tuple_text = ''{"data": {"a": [1, 2]}, "token": "tok"}''\<close>

definition scenario_texts :: "(string \<times> json) list" where
  \<open>scenario_texts =
     [(scenario_text, scenario_record),
      (scenario_stored_text,
       JObj [(''encrypted_data'', JStr scenario_hex), (''metadata'', scenario_metadata)]),
      (noexpiry_text, JObj [(''data'', JObj [(''a'', JInt 1)]), (''token'', JStr ''tok'')]),
      (''{"encrypted_data": "6741414141417b2264617461223a207b2261223a20317d2c2022746f6b656e223a2022746f6b227d", "metadata": {}}'',
       JObj [(''encrypted_data'', JStr noexpiry_hex), (''metadata'', JObj [])]),
      (badstamp_text, JObj [(''token'', JStr ''tok''), (''encrypted_at'', JStr ''yesterday'')]),
      (''{"encrypted_data": "6741414141417b22746f6b656e223a2022746f6b222c2022656e637279707465645f6174223a2022796573746572646179227d", "metadata": {}}'',
       JObj [(''encrypted_data'', JStr badstamp_hex), (''metadata'', JObj [])]),
      (baddata_text, JObj [(''data'', JStr ''x'')]),
      (''{"encrypted_data": "6741414141417b2264617461223a202278227d", "metadata": {}}'',
       JObj [(''encrypted_data'', JStr baddata_hex), (''metadata'', JObj [])]),
      (awarexp_text, JObj [(''expires_at'', JStr ''2020-01-01T00:00:00+00:00'')]),
      (''{"encrypted_data": "6741414141417b22657870697265735f6174223a2022323032302d30312d30315430303a30303a30302b30303a3030227d", "metadata": {}}'',
       JObj [(''encrypted_data'', JStr awarexp_hex), (''metadata'', JObj [])]),
      (''{}'', JObj []),
      (''{"encrypted_data": "6741414141417b7d", "metadata": {}}'',
       JObj [(''encrypted_data'', JStr ''6741414141417b7d''), (''metadata'', JObj [])]),
      (''{"encrypted_data": "6741414141427b7d", "metadata": {}}'',
       JObj [(''encrypted_data'', JStr ''6741414141427b7d''), (''metadata'', JObj [])]),
      (tuple_text, list_record),
      (tuple_text, tuple_record)]\<close>

definition scenario_lib :: "world pylib" where
  "scenario_lib = memory_lib scenario_instants scenario_parsed scenario_texts 1"

definition scenario_world :: world where
  "scenario_world = \<lparr>clock = 63839664000000000, ivs = 0, probes = 0, store = []\<rparr>"

text \<open>The store two hours later, at 02:00:00, with the entries still in it.\<close>

definition scenario_store :: "(string \<times> string \<times> int) list" where
  \<open>scenario_store =
     [(''link:scenario'', scenario_stored_text, 3600),
      (''link:noexpiry'', ''{"encrypted_data": "6741414141417b2264617461223a207b2261223a20317d2c2022746f6b656e223a2022746f6b227d", "metadata": {}}'', 3600),
      (''link:badstamp'', ''{"encrypted_data": "6741414141417b22746f6b656e223a2022746f6b222c2022656e637279707465645f6174223a2022796573746572646179227d", "metadata": {}}'', 3600),
      (''link:baddata'', ''{"encrypted_data": "6741414141417b2264617461223a202278227d", "metadata": {}}'', 3600),
      (''link:awarexp'', ''{"encrypted_data": "6741414141417b22657870697265735f6174223a2022323032302d30312d30315430303a30303a30302b30303a3030227d", "metadata": {}}'', 3600),
      (''link:emptyobj'', ''{"encrypted_data": "6741414141417b7d", "metadata": {}}'', 3600),
      (''link:tampered'', ''{"encrypted_data": "6741414141427b7d", "metadata": {}}'', 3600)]\<close>

definition later_world :: world where
  "later_world = \<lparr>clock = 63839671200000000, ivs = 1, probes = 1, store = scenario_store\<rparr>"

section \<open>Missing credential\<close>

text \<open>These three headers are the only ones without a token.\<close>

lemma extract_token_empty:
  "(extract_token a = None \<or> extract_token a = Some [])
     \<longleftrightarrow> (a = None \<or> a = Some [] \<or> a = Some ''Bearer '')"
proof (cases a)
  case None
  then show ?thesis by (simp add: extract_token_def)
next
  case (Some s)
  have "s = ''Bearer ''" if "take 7 s = ''Bearer ''" and "drop 7 s = []"
    using that append_take_drop_id [of 7 s] by simp
  then show ?thesis
    using Some by (auto simp: extract_token_def startswith_def)
qed

text \<open>
  C4. Whatever the payload, the libraries and the state of the outside world, a request
  with an absent or empty credential (no header, an empty header, or \<open>Bearer \<close> followed by
  nothing) is refused with the 401 error and the world is returned as it was: neither the
  store nor the cipher has been called.
\<close>

theorem generate_link_missing_credential:
  "generate_link L request_data None w
     = (Inl (HTTPException 401 ''Authorization token is required'' None), w)
   \<and> generate_link L request_data (Some []) w
     = (Inl (HTTPException 401 ''Authorization token is required'' None), w)
   \<and> generate_link L request_data (Some ''Bearer '') w
     = (Inl (HTTPException 401 ''Authorization token is required'' None), w)"
  by (simp add: generate_link_def extract_token_def startswith_def)

section \<open>Short codes\<close>

lemma length_urlsafe_alphabet: "length urlsafe_alphabet = 64"
  by (simp add: urlsafe_alphabet_def)

lemma b64char_in_alphabet: "b64char n \<in> set urlsafe_alphabet"
  unfolding b64char_def by (rule nth_mem) (simp add: length_urlsafe_alphabet)

lemma pad_not_in_alphabet: "CHR ''='' \<notin> set urlsafe_alphabet"
  by (simp add: urlsafe_alphabet_def)

text \<open>An encoding is characters of the alphabet followed by the padding.\<close>

lemma urlsafe_b64encode_shape:
  "\<exists>body pad. urlsafe_b64encode bs = body @ pad
      \<and> set body \<subseteq> set urlsafe_alphabet \<and> set pad \<subseteq> {CHR ''=''}"
proof (induction bs rule: urlsafe_b64encode.induct)
  case 1
  show ?case by simp
next
  case (2 a)
  let ?n = "(of_char a :: nat) * 65536"
  have "urlsafe_b64encode [a] = [b64char (?n div 262144), b64char (?n div 4096)] @ [CHR ''='', CHR ''='']"
    by (simp add: Let_def)
  moreover have "set [b64char (?n div 262144), b64char (?n div 4096)] \<subseteq> set urlsafe_alphabet"
    by (simp add: b64char_in_alphabet)
  moreover have "set [CHR ''='', CHR ''=''] \<subseteq> {CHR ''=''}" by simp
  ultimately show ?case by blast
next
  case (3 a b)
  let ?n = "(of_char a :: nat) * 65536 + of_char b * 256"
  have "urlsafe_b64encode [a, b]
      = [b64char (?n div 262144), b64char (?n div 4096), b64char (?n div 64)] @ [CHR ''='']"
    by (simp add: Let_def)
  moreover have "set [b64char (?n div 262144), b64char (?n div 4096), b64char (?n div 64)]
      \<subseteq> set urlsafe_alphabet"
    by (simp add: b64char_in_alphabet)
  moreover have "set [CHR ''=''] \<subseteq> {CHR ''=''}" by simp
  ultimately show ?case by blast
next
  case (4 a b c r)
  then obtain body pad where r: "urlsafe_b64encode r = body @ pad"
    and body: "set body \<subseteq> set urlsafe_alphabet" and pad: "set pad \<subseteq> {CHR ''=''}"
    by blast
  let ?n = "(of_char a :: nat) * 65536 + of_char b * 256 + of_char c"
  let ?h = "[b64char (?n div 262144), b64char (?n div 4096), b64char (?n div 64), b64char ?n]"
  have "urlsafe_b64encode (a # b # c # r) = (?h @ body) @ pad"
    by (simp add: Let_def r)
  moreover have "set (?h @ body) \<subseteq> set urlsafe_alphabet"
    using body by (simp add: b64char_in_alphabet)
  ultimately show ?case using pad by blast
qed

lemma rstrip_append_pad:
  assumes "set pad \<subseteq> {c}"
  shows "rstrip (body @ pad) c = rstrip body c"
proof -
  have "\<forall>x \<in> set (rev pad). x = c" using assms by auto
  then have "dropWhile (\<lambda>x. x = c) (rev pad @ rev body) = dropWhile (\<lambda>x. x = c) (rev body)"
    by (simp add: dropWhile_append)
  then show ?thesis by (simp add: rstrip_def)
qed

lemma set_rstrip: "set (rstrip s c) \<subseteq> set s"
  using set_dropWhileD [of _ "\<lambda>x. x = c" "rev s"] by (auto simp: rstrip_def)

lemma rstrip_b64_alphabet:
  "set (rstrip (urlsafe_b64encode bs) CHR ''='') \<subseteq> set urlsafe_alphabet"
proof -
  obtain body pad where "urlsafe_b64encode bs = body @ pad"
    and body: "set body \<subseteq> set urlsafe_alphabet" and pad: "set pad \<subseteq> {CHR ''=''}"
    using urlsafe_b64encode_shape by blast
  then have "rstrip (urlsafe_b64encode bs) CHR ''='' = rstrip body CHR ''=''"
    by (simp add: rstrip_append_pad)
  then show ?thesis using set_rstrip [of body "CHR ''=''"] body by auto
qed

text \<open>
  C7. For every byte sequence \<open>b\<close> and every digest function in the place of
  \<open>hashlib.sha256\<close>, the code derived with \<open>max_length = 8\<close> is the first 8 characters of the
  URL-safe base64 text, with the padding stripped, of the first 8 bytes of the digest of
  \<open>b\<close>. It has at most 8 characters, all of them letters, digits, \<open>-\<close> or \<open>_\<close>, and none is
  the padding character. The code is a function of \<open>b\<close> alone: equal inputs give equal
  codes.
\<close>

theorem generate_short_code_urlsafe:
  "generate_short_code L b 8
     = take 8 (rstrip (urlsafe_b64encode (take 8 (hashlib_sha256 L b))) CHR ''='')
   \<and> length (generate_short_code L b 8) \<le> 8
   \<and> set (generate_short_code L b 8) \<subseteq> set urlsafe_alphabet
   \<and> CHR ''='' \<notin> set (generate_short_code L b 8)"
proof -
  have eq: "generate_short_code L b 8
     = take 8 (rstrip (urlsafe_b64encode (take 8 (hashlib_sha256 L b))) CHR ''='')"
    by (simp add: generate_short_code_def py_prefix_def)
  have sub: "set (generate_short_code L b 8) \<subseteq> set urlsafe_alphabet"
    unfolding eq using rstrip_b64_alphabet set_take_subset by fastforce
  have len: "length (generate_short_code L b 8) \<le> 8"
    unfolding eq by simp
  show ?thesis using eq sub len pad_not_in_alphabet by blast
qed

text \<open>With a digest of 32 bytes, as SHA-256 gives, the code is exactly the encoding of
  the first 6 bytes of the digest, 48 bits in 8 characters.\<close>

lemma generate_short_code_six_bytes:
  assumes "length (hashlib_sha256 L b) = 32"
  shows "generate_short_code L b 8 = urlsafe_b64encode (take 6 (hashlib_sha256 L b))
     \<and> length (generate_short_code L b 8) = 8"
proof -
  obtain d0 d1 d2 d3 d4 d5 d6 d7 r
    where d: "hashlib_sha256 L b = d0 # d1 # d2 # d3 # d4 # d5 # d6 # d7 # r"
    using assms by (auto simp: length_Suc_conv eval_nat_numeral)
  have ne: "b64char n \<noteq> CHR ''=''" for n
    using b64char_in_alphabet [of n] pad_not_in_alphabet by metis
  show ?thesis
    by (simp add: generate_short_code_def py_prefix_def d Let_def rstrip_def ne)
qed
section \<open>Stored text\<close>

lemma hexdigit_table:
  "list_all (\<lambda>n. hexval (hexdigit n) = Some n \<and> \<not> isspace (hexdigit n)) [0..<16]"
  by code_simp

lemma hexval_hexdigit: "n < 16 \<Longrightarrow> hexval (hexdigit n) = Some n"
  using hexdigit_table by (simp add: list_all_iff)

lemma not_isspace_hexdigit: "n < 16 \<Longrightarrow> \<not> isspace (hexdigit n)"
  using hexdigit_table by (simp add: list_all_iff)

lemma char_of_div_mod: "char_of (16 * (of_char c div 16) + of_char c mod 16 :: nat) = c"
  by simp

text \<open>\<open>bytes.fromhex(b.hex()) == b\<close>: the store gives back the cipher text it was given.\<close>

lemma fromhex_hex: "fromhex (hex bs) = Inr bs"
proof (induction bs)
  case Nil
  show ?case by (simp add: hex_def)
next
  case (Cons c bs)
  have h: "hex (c # bs) = hexdigit (of_char c div 16) # hexdigit (of_char c mod 16) # hex bs"
    by (simp add: hex_def)
  have lt: "(of_char c :: nat) div 16 < 16"
    using of_char_of [of "of_char c :: nat"] by (simp add: less_mult_imp_div_less)
  show ?case
    unfolding h using Cons lt
    by (simp add: hexval_hexdigit not_isspace_hexdigit char_of_div_mod)
qed

lemma utf8_ok_ascii: "list_all (\<lambda>b. b < 128) bs \<Longrightarrow> utf8_ok bs"
  by (induction bs) (simp_all add: Let_def)

text \<open>ASCII text is valid UTF-8.\<close>

lemma bytes_decode_ascii:
  "list_all (\<lambda>c. (of_char c :: nat) < 128) s \<Longrightarrow> bytes_decode s = Inr s"
  by (simp add: bytes_decode_def utf8_ok_ascii list_all_iff)

text \<open>The hexadecimal text of the cipher texts in the store.\<close>

lemma hex_scenario: "hex (''gAAAAA'' @ scenario_text) = scenario_hex"
  by (simp add: hex_def hexdigit_def scenario_text_def scenario_hex_def)

lemma hex_noexpiry: "hex (''gAAAAA'' @ noexpiry_text) = noexpiry_hex"
  by (simp add: hex_def hexdigit_def noexpiry_text_def noexpiry_hex_def)

lemma hex_badstamp: "hex (''gAAAAA'' @ badstamp_text) = badstamp_hex"
  by (simp add: hex_def hexdigit_def badstamp_text_def badstamp_hex_def)

lemma hex_baddata: "hex (''gAAAAA'' @ baddata_text) = baddata_hex"
  by (simp add: hex_def hexdigit_def baddata_text_def baddata_hex_def)

lemma hex_awarexp: "hex (''gAAAAA'' @ awarexp_text) = awarexp_hex"
  by (simp add: hex_def hexdigit_def awarexp_text_def awarexp_hex_def)

lemma fromhex_scenario: "fromhex scenario_hex = Inr (''gAAAAA'' @ scenario_text)"
  using fromhex_hex [of "''gAAAAA'' @ scenario_text"] by (simp only: hex_scenario)

lemma fromhex_noexpiry: "fromhex noexpiry_hex = Inr (''gAAAAA'' @ noexpiry_text)"
  using fromhex_hex [of "''gAAAAA'' @ noexpiry_text"] by (simp only: hex_noexpiry)

lemma fromhex_badstamp: "fromhex badstamp_hex = Inr (''gAAAAA'' @ badstamp_text)"
  using fromhex_hex [of "''gAAAAA'' @ badstamp_text"] by (simp only: hex_badstamp)

lemma fromhex_baddata: "fromhex baddata_hex = Inr (''gAAAAA'' @ baddata_text)"
  using fromhex_hex [of "''gAAAAA'' @ baddata_text"] by (simp only: hex_baddata)

lemma fromhex_awarexp: "fromhex awarexp_hex = Inr (''gAAAAA'' @ awarexp_text)"
  using fromhex_hex [of "''gAAAAA'' @ awarexp_text"] by (simp only: hex_awarexp)

lemmas generate_defs = generate_link_def extract_token_def startswith_def timedelta_hours_def
  datetime_add_def datetime_max_def encrypt_def save_def exists_def link_key_def max_attempts_def
  encrypted_data_with_timestamp_def generate_short_code_def py_prefix_def rstrip_def b64char_def
  urlsafe_alphabet_def data_to_store_def hex_scenario [unfolded scenario_text_def, simplified]

lemmas validate_defs = validate_link_def get_def parse_stored_def link_key_def
  decrypt_def decrypt_except_def check_expiration_def parse_datetime_def dict_get_def
  valid_response_def parse_encrypted_at_def LinkValidationResponse_def invalid_response_def
  startswith_def datetime_gt_def bytes_decode_ascii hexval_def isspace_def char_of_eq_iff
  fromhex_scenario fromhex_noexpiry fromhex_badstamp fromhex_baddata fromhex_awarexp

lemmas memory_defs = memory_lib_def memory_setex_def memory_get_def memory_exists_def
  memory_dict_def memory_str_def scripted_exists_def scenario_lib_def scenario_world_def
  scenario_instants_def scenario_parsed_def scenario_record_def scenario_metadata_def
  scenario_texts_def scenario_text_def scenario_stored_text_def noexpiry_text_def
  badstamp_text_def baddata_text_def awarexp_text_def tuple_text_def tuple_record_def
  list_record_def scenario_store_def later_world_def

section \<open>Validation\<close>

lemma get_scenario:
  "get scenario_lib ''scenario'' later_world
     = (Some \<lparr>encrypted_data = ''gAAAAA'' @ scenario_text, metadata = scenario_metadata\<rparr>,
        later_world)"
  by (simp add: validate_defs memory_defs)

lemma decrypt_scenario:
  "decrypt scenario_lib (''gAAAAA'' @ scenario_text) = Inr scenario_record"
  by (simp add: validate_defs memory_defs)

text \<open>
  C3, as the code has it. When the store still holds the entry, its cipher text decrypts
  to a record whose \<open>expires_at\<close> is the text of a naive instant (one without a UTC offset,
  as \<open>generate\<close> writes it), and that instant is strictly earlier than the clock read by
  \<open>validate\<close>, the result is invalid with the reason "Link has expired".
\<close>

theorem validate_link_expired:
  assumes "get L code w = (Some link, w1)"
    and "decrypt L (encrypted_data link) = Inr (JObj kvs)"
    and "dict_get kvs ''expires_at'' = JStr s"
    and "s \<noteq> []"
    and "fromisoformat L s = Inr (Naive expires)"
    and "utcnow L w1 = (now, w2)"
    and "expires < now"
  shows "validate_link L code w = (Inr (invalid_response ''Link has expired''), w2)"
proof -
  have "kvs \<noteq> []" using assms(3) by (auto simp: dict_get_def)
  then show ?thesis using assms
    by (simp add: validate_link_def check_expiration_def parse_datetime_def datetime_gt_def)
qed

theorem validate_link_expired_witness:
  "get scenario_lib ''scenario'' later_world
     = (Some \<lparr>encrypted_data = ''gAAAAA'' @ scenario_text, metadata = scenario_metadata\<rparr>,
        later_world)
   \<and> decrypt scenario_lib (''gAAAAA'' @ scenario_text) = Inr scenario_record
   \<and> fromisoformat scenario_lib ''2024-01-01T01:00:00'' = Inr (Naive 63839667600000000)
   \<and> utcnow scenario_lib later_world = (63839671200000000, later_world)
   \<and> validate_link scenario_lib ''scenario'' later_world
       = (Inr \<lparr>valid = False, data = None, token = None, encrypted_at = None,
                error = Some ''Link has expired''\<rparr>, later_world)"
proof -
  let ?link = "\<lparr>encrypted_data = ''gAAAAA'' @ scenario_text, metadata = scenario_metadata\<rparr>"
  let ?kvs = "[(''data'', JObj [(''a'', JInt 1)]), (''token'', JStr ''tok''),
      (''encrypted_at'', JStr ''2024-01-01T00:00:00''),
      (''expires_at'', JStr ''2024-01-01T01:00:00'')]"
  have g: "get scenario_lib ''scenario'' later_world = (Some ?link, later_world)"
    by (rule get_scenario)
  have d: "decrypt scenario_lib (encrypted_data ?link) = Inr (JObj ?kvs)"
    using decrypt_scenario by (simp add: scenario_record_def)
  have e: "dict_get ?kvs ''expires_at'' = JStr ''2024-01-01T01:00:00''"
    by (simp add: dict_get_def)
  have n: "''2024-01-01T01:00:00'' \<noteq> []" by simp
  have f: "fromisoformat scenario_lib ''2024-01-01T01:00:00'' = Inr (Naive 63839667600000000)"
    by (simp add: memory_defs)
  have u: "utcnow scenario_lib later_world = (63839671200000000, later_world)"
    by (simp add: memory_defs)
  have l: "(63839667600000000 :: int) < 63839671200000000" by simp
  show ?thesis
    using validate_link_expired [OF g d e n f u l] g decrypt_scenario f u
    by (simp add: invalid_response_def)
qed

text \<open>
  The claim as it was stated fails on the record \<open>{"expires_at":
  "2020-01-01T00:00:00+00:00"}\<close>: its \<open>expires_at\<close> is an instant of the year 2020, four years
  before the clock, and \<open>validate\<close> raises the \<open>TypeError\<close> of comparing a naive \<open>datetime\<close>
  with an aware one instead of reporting the link as expired.
\<close>

theorem validate_link_expired_counterexample:
  "fst (get scenario_lib ''awarexp'' later_world)
     = Some \<lparr>encrypted_data = ''gAAAAA'' @ awarexp_text, metadata = JObj []\<rparr>
   \<and> decrypt scenario_lib (''gAAAAA'' @ awarexp_text)
       = Inr (JObj [(''expires_at'', JStr ''2020-01-01T00:00:00+00:00'')])
   \<and> fromisoformat scenario_lib ''2020-01-01T00:00:00+00:00'' = Inr (Aware 63713433600000000 0)
   \<and> 63713433600000000 < clock later_world
   \<and> validate_link scenario_lib ''awarexp'' later_world = (Inl TypeError, later_world)"
  by (simp add: validate_defs memory_defs)

text \<open>A decrypted value that is false for Python (\<open>None\<close>, the empty record, an empty list
  or string, zero, \<open>false\<close>) is reported as corrupted.\<close>

lemma validate_link_falsy:
  assumes "get L code w = (Some link, w1)"
    and "decrypt L (encrypted_data link) = Inr d"
    and "\<not> truthy d"
  shows "validate_link L code w = (Inr (invalid_response ''Link data is corrupted or invalid''), w1)"
  using assms by (simp add: validate_link_def)

text \<open>
  C6. A byte sequence that the cipher rejects (a wrong integrity tag or a malformed token:
  Fernet raises \<open>InvalidToken\<close> for both) makes \<open>decrypt\<close> return \<open>None\<close> and nothing else,
  and \<open>validate\<close> reports the entry as invalid with the reason "Link data is corrupted or
  invalid".
\<close>

theorem validate_link_invalid_ciphertext:
  assumes "get L code w = (Some link, w1)"
    and "fernet_decrypt L (encrypted_data link) = Inl InvalidToken"
  shows "decrypt L (encrypted_data link) = Inr JNull
     \<and> validate_link L code w
         = (Inr (invalid_response ''Link data is corrupted or invalid''), w1)"
proof -
  have d: "decrypt L (encrypted_data link) = Inr JNull"
    using assms(2) by (simp add: decrypt_def decrypt_except_def)
  have "\<not> truthy JNull" by simp
  from validate_link_falsy [OF assms(1) d this] d show ?thesis by simp
qed

theorem validate_link_invalid_ciphertext_witness:
  "get scenario_lib ''tampered'' later_world
     = (Some \<lparr>encrypted_data = ''gAAAAB{}'', metadata = JObj []\<rparr>, later_world)
   \<and> fernet_decrypt scenario_lib ''gAAAAB{}'' = Inl InvalidToken
   \<and> decrypt scenario_lib ''gAAAAB{}'' = Inr JNull
   \<and> validate_link scenario_lib ''tampered'' later_world
       = (Inr \<lparr>valid = False, data = None, token = None, encrypted_at = None,
                error = Some ''Link data is corrupted or invalid''\<rparr>, later_world)"
proof -
  let ?link = "\<lparr>encrypted_data = ''gAAAAB{}'', metadata = JObj []\<rparr>"
  have g: "get scenario_lib ''tampered'' later_world = (Some ?link, later_world)"
    by (simp add: validate_defs memory_defs)
  have t: "fernet_decrypt scenario_lib (encrypted_data ?link) = Inl InvalidToken"
    by (simp add: memory_defs startswith_def)
  show ?thesis
    using validate_link_invalid_ciphertext [OF g t] g t by (simp add: invalid_response_def)
qed

text \<open>
  C10. When the cipher text of a stored entry decrypts to the empty record \<open>{}\<close>,
  \<open>validate\<close> reports it as it reports a failed decryption: invalid, with the reason "Link
  data is corrupted or invalid".
\<close>

theorem validate_link_empty_record:
  assumes "get L code w = (Some link, w1)"
    and "decrypt L (encrypted_data link) = Inr (JObj [])"
  shows "validate_link L code w
     = (Inr (invalid_response ''Link data is corrupted or invalid''), w1)"
proof -
  have "\<not> truthy (JObj [])" by simp
  from validate_link_falsy [OF assms this] show ?thesis .
qed

theorem validate_link_empty_record_witness:
  "get scenario_lib ''emptyobj'' later_world
     = (Some \<lparr>encrypted_data = ''gAAAAA{}'', metadata = JObj []\<rparr>, later_world)
   \<and> fernet_decrypt scenario_lib ''gAAAAA{}'' = Inr ''{}''
   \<and> decrypt scenario_lib ''gAAAAA{}'' = Inr (JObj [])
   \<and> validate_link scenario_lib ''emptyobj'' later_world
       = (Inr \<lparr>valid = False, data = None, token = None, encrypted_at = None,
                error = Some ''Link data is corrupted or invalid''\<rparr>, later_world)"
proof -
  let ?link = "\<lparr>encrypted_data = ''gAAAAA{}'', metadata = JObj []\<rparr>"
  have g: "get scenario_lib ''emptyobj'' later_world = (Some ?link, later_world)"
    by (simp add: validate_defs memory_defs)
  have f: "fernet_decrypt scenario_lib ''gAAAAA{}'' = Inr ''{}''"
    by (simp add: memory_defs startswith_def)
  have d: "decrypt scenario_lib (encrypted_data ?link) = Inr (JObj [])"
    by (simp add: validate_defs memory_defs)
  show ?thesis
    using validate_link_empty_record [OF g d] g f d by (simp add: invalid_response_def)
qed

text \<open>Nothing but the expiry check and \<open>generate\<close> reads the clock.\<close>

lemma parse_stored_clock: "parse_stored (L\<lparr>utcnow := c\<rparr>) = parse_stored L"
  by (rule ext) (simp add: parse_stored_def split: sum.splits)

lemma get_clock: "get (L\<lparr>utcnow := c\<rparr>) = get L"
  unfolding get_def parse_stored_clock by simp

lemma decrypt_clock: "decrypt (L\<lparr>utcnow := c\<rparr>) = decrypt L"
  by (rule ext) (simp add: decrypt_def split: sum.splits)

lemma parse_datetime_clock: "parse_datetime (L\<lparr>utcnow := c\<rparr>) = parse_datetime L"
  by (rule ext) (simp add: parse_datetime_def split: json.splits)

lemma parse_encrypted_at_clock: "parse_encrypted_at (L\<lparr>utcnow := c\<rparr>) = parse_encrypted_at L"
  unfolding parse_encrypted_at_def parse_datetime_clock by simp

lemma LinkValidationResponse_clock:
  "LinkValidationResponse (L\<lparr>utcnow := c\<rparr>) = LinkValidationResponse L"
  by (intro ext) (simp add: LinkValidationResponse_def split: sum.splits)

text \<open>
  C9, as the code has it. When the cipher text of a stored entry decrypts to a non-empty
  record whose \<open>expires_at\<close> is missing or empty, \<open>validate\<close> does not read the clock and
  makes no expiry check. Provided the record's \<open>encrypted_at\<close> is missing, empty or the
  text of an instant, and its \<open>data\<close> and \<open>token\<close> pass the validation of the response
  schema, it returns a valid response with that \<open>data\<close> and \<open>token\<close>, the same whatever clock
  the service is given.
\<close>

theorem validate_link_without_expiry:
  assumes "get L code w = (Some link, w1)"
    and "decrypt L (encrypted_data link) = Inr (JObj kvs)"
    and "kvs \<noteq> []"
    and "\<not> truthy (dict_get kvs ''expires_at'')"
    and "parse_encrypted_at L kvs = Inr enc"
    and "pydantic_dict L (dict_get kvs ''data'') = Inr d"
    and "pydantic_str L (dict_get kvs ''token'') = Inr t"
  shows "validate_link (L\<lparr>utcnow := any_clock\<rparr>) code w
     = (Inr \<lparr>valid = True, data = d, token = t, encrypted_at = enc, error = None\<rparr>, w1)"
proof -
  let ?L = "L\<lparr>utcnow := any_clock\<rparr>"
  have g: "get ?L code w = (Some link, w1)"
    using assms(1) by (simp add: get_clock)
  have dec: "decrypt ?L (encrypted_data link) = Inr (JObj kvs)"
    using assms(2) by (simp add: decrypt_clock)
  have c: "check_expiration ?L kvs w1 = (Inr False, w1)"
    using assms(4) by (simp add: check_expiration_def)
  have p: "parse_encrypted_at ?L kvs = Inr enc"
    using assms(5) by (simp add: parse_encrypted_at_clock)
  have v: "valid_response ?L kvs
      = Inr \<lparr>valid = True, data = d, token = t, encrypted_at = enc, error = None\<rparr>"
    using p assms(6,7)
    by (simp add: valid_response_def LinkValidationResponse_clock LinkValidationResponse_def)
  show ?thesis
    using g dec c v assms(3) by (simp add: validate_link_def)
qed

theorem validate_link_without_expiry_witness:
  "get scenario_lib ''noexpiry'' later_world
     = (Some \<lparr>encrypted_data = ''gAAAAA'' @ noexpiry_text, metadata = JObj []\<rparr>, later_world)
   \<and> decrypt scenario_lib (''gAAAAA'' @ noexpiry_text)
       = Inr (JObj [(''data'', JObj [(''a'', JInt 1)]), (''token'', JStr ''tok'')])
   \<and> validate_link (scenario_lib\<lparr>utcnow := (\<lambda>w. (0, w))\<rparr>) ''noexpiry'' later_world
       = (Inr \<lparr>valid = True, data = Some [(''a'', JInt 1)], token = Some ''tok'',
                encrypted_at = None, error = None\<rparr>, later_world)"
proof -
  let ?link = "\<lparr>encrypted_data = ''gAAAAA'' @ noexpiry_text, metadata = JObj []\<rparr>"
  let ?kvs = "[(''data'', JObj [(''a'', JInt 1)]), (''token'', JStr ''tok'')]"
  have g: "get scenario_lib ''noexpiry'' later_world = (Some ?link, later_world)"
    by (simp add: validate_defs memory_defs)
  have d: "decrypt scenario_lib (encrypted_data ?link) = Inr (JObj ?kvs)"
    by (simp add: validate_defs memory_defs)
  have n: "?kvs \<noteq> []" by simp
  have e: "\<not> truthy (dict_get ?kvs ''expires_at'')" by (simp add: dict_get_def)
  have p: "parse_encrypted_at scenario_lib ?kvs = Inr None"
    by (simp add: parse_encrypted_at_def dict_get_def)
  have pd: "pydantic_dict scenario_lib (dict_get ?kvs ''data'') = Inr (Some [(''a'', JInt 1)])"
    by (simp add: memory_defs dict_get_def)
  have ps: "pydantic_str scenario_lib (dict_get ?kvs ''token'') = Inr (Some ''tok'')"
    by (simp add: memory_defs dict_get_def)
  show ?thesis
    using validate_link_without_expiry [OF g d n e p pd ps, of "\<lambda>w. (0, w)"] g d by simp
qed

text \<open>
  The claim as it was stated fails on two records that are not empty and have no
  \<open>expires_at\<close>. On \<open>{"token": "tok", "encrypted_at": "yesterday"}\<close>, \<open>validate\<close> raises the
  \<open>ValueError\<close> of \<open>datetime.fromisoformat\<close>; on \<open>{"data": "x"}\<close>, whose \<open>data\<close> is no \<open>dict\<close>,
  it raises the validation error of the response schema. Neither gets a valid response.
\<close>

theorem validate_link_without_expiry_counterexample:
  "decrypt scenario_lib (''gAAAAA'' @ badstamp_text)
     = Inr (JObj [(''token'', JStr ''tok''), (''encrypted_at'', JStr ''yesterday'')])
   \<and> map_of [(''token'', JStr ''tok''), (''encrypted_at'', JStr ''yesterday'')] ''expires_at'' = None
   \<and> fst (get scenario_lib ''badstamp'' later_world)
       = Some \<lparr>encrypted_data = ''gAAAAA'' @ badstamp_text, metadata = JObj []\<rparr>
   \<and> validate_link scenario_lib ''badstamp'' later_world = (Inl ValueError, later_world)
   \<and> decrypt scenario_lib (''gAAAAA'' @ baddata_text) = Inr (JObj [(''data'', JStr ''x'')])
   \<and> fst (get scenario_lib ''baddata'' later_world)
       = Some \<lparr>encrypted_data = ''gAAAAA'' @ baddata_text, metadata = JObj []\<rparr>
   \<and> validate_link scenario_lib ''baddata'' later_world = (Inl ValidationError, later_world)"
  by (simp add: validate_defs memory_defs)

section \<open>Collisions\<close>

text \<open>When the loop ends before the attempts are used up, its last probe has found no
  entry under the code it returns.\<close>

lemma collision_loop_free:
  assumes "collision_loop L enc now code attempt w = (code', attempt', w')"
    and "attempt' < max_attempts"
  shows "\<exists>w0. exists L code' w0 = (False, w')"
  using assms
proof (induction L enc now code attempt w rule: collision_loop.induct)
  case (1 L enc now code attempt w)
  obtain collides w1 where e: "exists L code w = (collides, w1)"
    by (cases "exists L code w")
  show ?case
  proof (cases "collides \<and> attempt < max_attempts")
    case True
    with e "1.prems" have
      "collision_loop L enc now
         (generate_short_code L (encrypted_data_with_timestamp L enc now attempt) 8)
         (attempt + 1) w1 = (code', attempt', w')"
      by (simp add: collision_loop.simps [of L enc now code attempt w])
    from "1.IH" [OF e [symmetric] True this "1.prems"(2)] show ?thesis .
  next
    case False
    with e "1.prems" have r: "code' = code" "attempt' = attempt" "w' = w1"
      by (simp_all add: collision_loop.simps [of L enc now code attempt w])
    with False "1.prems"(2) have "\<not> collides" by simp
    with e r show ?thesis by auto
  qed
qed

text \<open>The counter only grows, and stops at \<open>max_attempts\<close>.\<close>

lemma collision_loop_attempts:
  assumes "collision_loop L enc now code attempt w = (code', attempt', w')"
  shows "attempt \<le> attempt' \<and> (attempt \<le> max_attempts \<longrightarrow> attempt' \<le> max_attempts)"
  using assms
proof (induction L enc now code attempt w rule: collision_loop.induct)
  case (1 L enc now code attempt w)
  obtain collides w1 where e: "exists L code w = (collides, w1)"
    by (cases "exists L code w")
  show ?case
  proof (cases "collides \<and> attempt < max_attempts")
    case True
    with e "1.prems" have
      "collision_loop L enc now
         (generate_short_code L (encrypted_data_with_timestamp L enc now attempt) 8)
         (attempt + 1) w1 = (code', attempt', w')"
      by (simp add: collision_loop.simps [of L enc now code attempt w])
    from "1.IH" [OF e [symmetric] True this] True show ?thesis by simp
  next
    case False
    with e "1.prems" show ?thesis
      by (simp add: collision_loop.simps [of L enc now code attempt w])
  qed
qed

text \<open>Whenever Redis reports a collision to each probe until the attempts are used up, the
  loop ends with the counter at \<open>max_attempts\<close>, whatever the probe after them reports.\<close>

lemma collision_loop_scripted:
  assumes "redis_exists L = scripted_exists n"
    and "attempt \<le> max_attempts"
    and "probes w + (max_attempts - attempt) \<le> n"
  shows "fst (snd (collision_loop L enc now code attempt w)) = max_attempts"
  using assms
proof (induction L enc now code attempt w rule: collision_loop.induct)
  case (1 L enc now code attempt w)
  let ?w1 = "w\<lparr>probes := probes w + 1\<rparr>"
  show ?case
  proof (cases "attempt < max_attempts")
    case True
    with "1.prems" have e: "exists L code w = (True, ?w1)"
      by (simp add: exists_def scripted_exists_def)
    have "fst (snd (collision_loop L enc now
            (generate_short_code L (encrypted_data_with_timestamp L enc now attempt) 8)
            (attempt + 1) ?w1)) = max_attempts"
      using "1.IH" [OF e [symmetric] _ "1.prems"(1)] True "1.prems"(3) by simp
    with e True show ?thesis
      by (simp add: collision_loop.simps [of L enc now code attempt w])
  next
    case False
    then have "collision_loop L enc now code attempt w = (code, attempt, snd (exists L code w))"
      by (simp add: collision_loop.simps [of L enc now code attempt w] split: prod.splits)
    with False "1.prems"(2) show ?thesis by simp
  qed
qed

text \<open>
  C1, on the code. The first five existence probes report a collision and the sixth
  reports none: the request fails with "Failed to generate unique short code" all the same,
  after six probes and without a write to the store.
\<close>

theorem generate_link_five_collisions:
  "generate_link (scenario_lib\<lparr>redis_exists := scripted_exists 5\<rparr>) [(''a'', JInt 1)]
     (Some ''Bearer tok'') scenario_world
   = (Inl (HTTPException 500 ''Failed to generate unique short code'' None),
      \<lparr>clock = 63839664000000000, ivs = 1, probes = 6, store = []\<rparr>)"
  by (simp add: generate_defs memory_defs collision_loop.simps)

text \<open>With four collisions the request succeeds, with the code of the fifth probe.\<close>

lemma generate_link_four_collisions:
  "generate_link (scenario_lib\<lparr>redis_exists := scripted_exists 4\<rparr>) [(''a'', JInt 1)]
     (Some ''Bearer tok'') scenario_world
   = (Inr \<lparr>short_code = ''MC4wMDI3'', expires_at = 63839667600000000,
            created_at = 63839664000000000\<rparr>,
      \<lparr>clock = 63839664000000000, ivs = 1, probes = 5,
        store = [(''link:MC4wMDI3'', scenario_stored_text, 3600)]\<rparr>)"
  by (simp add: generate_defs memory_defs collision_loop.simps data_to_store_def)

text \<open>One, two or three collisions end with one and the same code, the one derived from
  the cipher text and the text of \<open>now\<close>.\<close>

lemma generate_link_same_code:
  "fst (generate_link (scenario_lib\<lparr>redis_exists := scripted_exists 1\<rparr>) [(''a'', JInt 1)]
     (Some ''Bearer tok'') scenario_world)
   = Inr \<lparr>short_code = ''MC4wMDI3'', expires_at = 63839667600000000,
           created_at = 63839664000000000\<rparr>
   \<and> fst (generate_link (scenario_lib\<lparr>redis_exists := scripted_exists 2\<rparr>) [(''a'', JInt 1)]
     (Some ''Bearer tok'') scenario_world)
   = Inr \<lparr>short_code = ''MC4wMDI3'', expires_at = 63839667600000000,
           created_at = 63839664000000000\<rparr>
   \<and> fst (generate_link (scenario_lib\<lparr>redis_exists := scripted_exists 3\<rparr>) [(''a'', JInt 1)]
     (Some ''Bearer tok'') scenario_world)
   = Inr \<lparr>short_code = ''MC4wMDI3'', expires_at = 63839667600000000,
           created_at = 63839664000000000\<rparr>"
  by (simp add: generate_defs memory_defs collision_loop.simps data_to_store_def)

text \<open>
  C2, on the code. The bytes a new code is derived from are the same at every attempt: the
  cipher text followed by the text of the one \<open>now\<close> taken before the loop. So the loop can
  only return the code it started with or that one other code.
\<close>

theorem collision_loop_one_other_code:
  "encrypted_data_with_timestamp L enc now i = encrypted_data_with_timestamp L enc now j
   \<and> fst (collision_loop L enc now code attempt w)
       \<in> {code, generate_short_code L (enc @ timestamp_str L now) 8}"
proof -
  have "fst (collision_loop L enc now code attempt w)
       \<in> {code, generate_short_code L (enc @ timestamp_str L now) 8}"
  proof (induction L enc now code attempt w rule: collision_loop.induct)
    case (1 L enc now code attempt w)
    obtain collides w1 where e: "exists L code w = (collides, w1)"
      by (cases "exists L code w")
    show ?case
    proof (cases "collides \<and> attempt < max_attempts")
      case True
      from "1.IH" [OF e [symmetric] True] e True show ?thesis
        by (simp add: collision_loop.simps [of L enc now code attempt w]
            encrypted_data_with_timestamp_def)
    next
      case False
      with e show ?thesis
        by (auto simp: collision_loop.simps [of L enc now code attempt w])
    qed
  qed
  then show ?thesis by (simp add: encrypted_data_with_timestamp_def)
qed

section \<open>Generation\<close>

text \<open>
  C8. A request that succeeds has read the clock once for \<open>created_at\<close>; its \<open>expires_at\<close> is
  \<open>created_at\<close> plus the configured hours; the record it encrypted carries the text of
  these two instants; the value it stored is the hexadecimal text of the cipher text
  together with a \<open>metadata\<close> record of the text of the same two instants; and the world it
  leaves is the one after \<open>SETEX\<close> of that value under \<open>link:\<close> and the returned code, with
  an expiry of the configured hours times 3600 seconds.
\<close>

theorem generate_link_success:
  assumes "generate_link L request_data authorization w = (Inr r, w')"
  shows "\<exists>tok w1 enc w2 attempt w3 json_data.
      extract_token authorization = Some tok
    \<and> utcnow L w = (created_at r, w1)
    \<and> expires_at r = created_at r + expiration_hours L * 3600 * 1000000
    \<and> encrypt L (JObj [(''data'', JObj request_data), (''token'', JStr tok),
                      (''encrypted_at'', JStr (isoformat L (created_at r))),
                      (''expires_at'', JStr (isoformat L (expires_at r)))]) w1 = (Inr enc, w2)
    \<and> collision_loop L enc (created_at r) (generate_short_code L enc 8) 0 w2
        = (short_code r, attempt, w3)
    \<and> json_dumps L (JObj [(''encrypted_data'', JStr (hex enc)),
          (''metadata'', JObj [(''encrypted_at'', JStr (isoformat L (created_at r))),
                              (''expires_at'', JStr (isoformat L (expires_at r)))])])
        = Inr json_data
    \<and> redis_setex L (''link:'' @ short_code r) (expiration_hours L * 3600) json_data w3
        = (Inr (), w')"
proof -
  from assms obtain tok where tok: "extract_token authorization = Some tok" "tok \<noteq> []"
    by (auto simp: generate_link_def split: option.splits if_splits)
  obtain now w1 where now: "utcnow L w = (now, w1)"
    by (cases "utcnow L w")
  from assms tok now obtain delta where delta: "timedelta_hours (expiration_hours L) = Inr delta"
    by (auto simp: generate_link_def split: sum.splits)
  from assms tok now delta obtain expires where expires: "datetime_add now delta = Inr expires"
    by (auto simp: generate_link_def split: sum.splits)
  let ?data = "JObj [(''data'', JObj request_data), (''token'', JStr tok),
                     (''encrypted_at'', JStr (isoformat L now)),
                     (''expires_at'', JStr (isoformat L expires))]"
  let ?meta = "JObj [(''encrypted_at'', JStr (isoformat L now)),
                     (''expires_at'', JStr (isoformat L expires))]"
  from assms tok now delta expires obtain enc w2 where enc: "encrypt L ?data w1 = (Inr enc, w2)"
    by (auto simp: generate_link_def split: sum.splits prod.splits)
  obtain code attempt w3
    where loop: "collision_loop L enc now (generate_short_code L enc 8) 0 w2 = (code, attempt, w3)"
    by (cases "collision_loop L enc now (generate_short_code L enc 8) 0 w2")
  from assms tok now delta expires enc loop
  have saved: "save L code enc ?meta w3 = (Inr True, w')"
    and r: "r = \<lparr>short_code = code, expires_at = expires, created_at = now\<rparr>"
    by (auto simp: generate_link_def save_def Let_def split: sum.splits prod.splits if_splits)
  from saved obtain json_data
    where dumps: "json_dumps L (JObj [(''encrypted_data'', JStr (hex enc)), (''metadata'', ?meta)])
        = Inr json_data"
    and setex: "redis_setex L (''link:'' @ code) (expiration_hours L * 3600) json_data w3
        = (Inr (), w')"
    by (auto simp: save_def data_to_store_def link_key_def Let_def split: sum.splits prod.splits)
  have sum: "expires = now + expiration_hours L * 3600 * 1000000"
    using delta expires
    by (auto simp: timedelta_hours_def datetime_add_def split: if_splits)
  show ?thesis
    using tok(1) now sum enc loop dumps setex unfolding r by auto
qed

lemma scenario_run:
  "generate_link scenario_lib [(''a'', JInt 1)] (Some ''Bearer tok'') scenario_world
   = (Inr \<lparr>short_code = ''fSIwMDow'', expires_at = 63839667600000000,
            created_at = 63839664000000000\<rparr>,
      \<lparr>clock = 63839664000000000, ivs = 1, probes = 1,
        store = [(''link:fSIwMDow'', scenario_stored_text, 3600)]\<rparr>)"
  by (simp add: generate_defs memory_defs collision_loop.simps)

theorem generate_link_success_witness:
  "generate_link scenario_lib [(''a'', JInt 1)] (Some ''Bearer tok'') scenario_world
   = (Inr \<lparr>short_code = ''fSIwMDow'', expires_at = 63839667600000000,
            created_at = 63839664000000000\<rparr>,
      \<lparr>clock = 63839664000000000, ivs = 1, probes = 1,
        store = [(''link:fSIwMDow'', scenario_stored_text, 3600)]\<rparr>)
   \<and> (63839667600000000 :: int) = 63839664000000000 + expiration_hours scenario_lib * 3600 * 1000000
   \<and> json_dumps scenario_lib
        (JObj [(''encrypted_data'', JStr (hex (''gAAAAA'' @ scenario_text))),
               (''metadata'', JObj [(''encrypted_at'', JStr ''2024-01-01T00:00:00''),
                                   (''expires_at'', JStr ''2024-01-01T01:00:00'')])])
       = Inr scenario_stored_text
   \<and> json_loads scenario_lib scenario_stored_text
       = Inr (JObj [(''encrypted_data'', JStr scenario_hex),
               (''metadata'', JObj [(''encrypted_at'', JStr ''2024-01-01T00:00:00''),
                                   (''expires_at'', JStr ''2024-01-01T01:00:00'')])])"
proof -
  have d: "json_dumps scenario_lib
        (JObj [(''encrypted_data'', JStr (hex (''gAAAAA'' @ scenario_text))),
               (''metadata'', JObj [(''encrypted_at'', JStr ''2024-01-01T00:00:00''),
                                   (''expires_at'', JStr ''2024-01-01T01:00:00'')])])
       = Inr scenario_stored_text"
    by (simp add: hex_scenario [simplified] scenario_lib_def memory_lib_def scenario_texts_def
        scenario_record_def scenario_metadata_def)
  have l: "json_loads scenario_lib scenario_stored_text
       = Inr (JObj [(''encrypted_data'', JStr scenario_hex),
               (''metadata'', JObj [(''encrypted_at'', JStr ''2024-01-01T00:00:00''),
                                   (''expires_at'', JStr ''2024-01-01T01:00:00'')])])"
    by (simp add: memory_defs)
  show ?thesis
    using generate_link_success [OF scenario_run] scenario_run d l
    by (simp add: scenario_lib_def memory_lib_def)
qed

section \<open>Round trip\<close>





end
